theory Spec2Isabelle
  imports Main "HOL-Library.AList" "HOL-Library.Multiset"
    "HOL-Library.Char_ord" "HOL-Library.List_Lexorder"
begin

section \<open>JavaScript values\<close>

text \<open>
  The records that flow through \<^verbatim>\<open>assets/js/github-projects.js\<close> are plain
  JavaScript objects decoded from JSON, so they are modelled as dynamically typed
  values. Finite numbers are integers: every number the script computes with is a
  millisecond timestamp, a star count or a counter. An object is its list of own
  properties in insertion order; where a key occurs twice in such a list the first
  occurrence is the property.
\<close>

datatype jsval =
    Undefined
  | Null
  | Bool bool
  | Num int
  | NaN
  | PosInf
  | NegInf
  | Str string
  | Arr "jsval list"
  | Obj "(string \<times> jsval) list"

datatype err =
    TypeError
  | NetworkFailure
  | HttpStatus int
  | BadJson

fun truthy :: "jsval \<Rightarrow> bool" where
  "truthy Undefined = False"
| "truthy Null = False"
| "truthy (Bool b) = b"
| "truthy (Num n) = (n \<noteq> 0)"
| "truthy NaN = False"
| "truthy PosInf = True"
| "truthy NegInf = True"
| "truthy (Str s) = (s \<noteq> [])"
| "truthy (Arr xs) = True"
| "truthy (Obj kvs) = True"

fun nullish :: "jsval \<Rightarrow> bool" where
  "nullish Undefined = True"
| "nullish Null = True"
| "nullish v = False"

text \<open>\<^verbatim>\<open>a || b\<close>, \<^verbatim>\<open>a ?? b\<close> and \<^verbatim>\<open>!!a\<close>.\<close>

definition js_or :: "jsval \<Rightarrow> jsval \<Rightarrow> jsval" where
  "js_or a b = (if truthy a then a else b)"

definition coalesce :: "jsval \<Rightarrow> jsval \<Rightarrow> jsval" where
  "coalesce a b = (if nullish a then b else a)"

definition to_bool :: "jsval \<Rightarrow> jsval" where
  "to_bool a = Bool (truthy a)"

fun is_number :: "jsval \<Rightarrow> bool" where
  "is_number (Num n) = True"
| "is_number NaN = True"
| "is_number PosInf = True"
| "is_number NegInf = True"
| "is_number v = False"

text \<open>\<^verbatim>\<open>Number.isFinite\<close> and \<^verbatim>\<open>Array.isArray\<close>.\<close>

fun isFinite :: "jsval \<Rightarrow> bool" where
  "isFinite (Num n) = True"
| "isFinite v = False"

fun isArray :: "jsval \<Rightarrow> bool" where
  "isArray (Arr xs) = True"
| "isArray v = False"

fun is_string :: "jsval \<Rightarrow> bool" where
  "is_string (Str s) = True"
| "is_string v = False"

text \<open>
  Reading a property. \<open>get\<close> is the read on a value that is neither
  \<^verbatim>\<open>undefined\<close> nor \<^verbatim>\<open>null\<close>: a missing property, and every property the
  script asks of a primitive or an array, is \<^verbatim>\<open>undefined\<close>. \<open>read_prop\<close> adds the
  TypeError of a read on \<^verbatim>\<open>undefined\<close> or \<^verbatim>\<open>null\<close>.
\<close>

fun get :: "jsval \<Rightarrow> string \<Rightarrow> jsval" where
  "get (Obj kvs) k = (case map_of kvs k of Some v \<Rightarrow> v | None \<Rightarrow> Undefined)"
| "get v k = Undefined"

definition read_prop :: "jsval \<Rightarrow> string \<Rightarrow> err + jsval" where
  "read_prop v k = (if nullish v then Inl TypeError else Inr (get v k))"

definition bindE :: "err + 'a \<Rightarrow> ('a \<Rightarrow> err + 'b) \<Rightarrow> err + 'b" where
  "bindE m f = (case m of Inl e \<Rightarrow> Inl e | Inr x \<Rightarrow> f x)"

text \<open>
  Own enumerable properties, as an object spread \<^verbatim>\<open>{...v}\<close> copies them:
  nothing for \<^verbatim>\<open>undefined\<close>, \<^verbatim>\<open>null\<close>, booleans and numbers, the indexed
  elements for arrays and strings.
\<close>

fun index_keys :: "nat \<Rightarrow> 'a list \<Rightarrow> (nat \<times> 'a) list" where
  "index_keys i [] = []"
| "index_keys i (x # xs) = (i, x) # index_keys (Suc i) xs"

fun own_props :: "(nat \<Rightarrow> string) \<Rightarrow> jsval \<Rightarrow> (string \<times> jsval) list" where
  "own_props shw (Obj kvs) = AList.clearjunk kvs"
| "own_props shw (Arr xs) = map (\<lambda>(i, x). (shw i, x)) (index_keys 0 xs)"
| "own_props shw (Str s) = map (\<lambda>(i, c). (shw i, Str [c])) (index_keys 0 s)"
| "own_props shw v = []"

text \<open>\<open>assign kvs ps\<close> writes the properties \<open>ps\<close> in order into \<open>kvs\<close>: an existing
  key keeps its place and takes the new value, a new key goes to the end.\<close>

fun assign :: "(string \<times> jsval) list \<Rightarrow> (string \<times> jsval) list \<Rightarrow> (string \<times> jsval) list" where
  "assign kvs [] = kvs"
| "assign kvs ((k, v) # ps) = assign (AList.update k v kvs) ps"

text \<open>
  \<^verbatim>\<open>JSON.parse(JSON.stringify(v))\<close>: a property whose value is \<^verbatim>\<open>undefined\<close> is
  dropped, an \<^verbatim>\<open>undefined\<close> array element and every non-finite number become
  \<^verbatim>\<open>null\<close>.
\<close>

fun json_rt :: "jsval \<Rightarrow> jsval" where
  "json_rt (Arr xs) = Arr (map json_rt xs)"
| "json_rt (Obj kvs) =
     Obj (map (\<lambda>p. (fst p, json_rt (snd p))) (filter (\<lambda>p. snd p \<noteq> Undefined) kvs))"
| "json_rt Undefined = Null"
| "json_rt NaN = Null"
| "json_rt PosInf = Null"
| "json_rt NegInf = Null"
| "json_rt v = v"

section \<open>Environment and state\<close>

text \<open>
  What the browser and the network supply. A response is either no response at all
  (the \<^verbatim>\<open>fetch\<close> promise rejects) or a status with the body decoded as JSON
  (\<open>None\<close> when the body is not JSON). \<open>respond\<close> and \<open>elapse\<close> see the URLs that
  went through the request queue before, so any sequence of answers and delays can
  be expressed. The built-in functions whose full definition lies outside the script
  are parameters too.
\<close>

datatype response = Unreachable | Reply int "jsval option"

record env =
  respond :: "string list \<Rightarrow> string \<Rightarrow> response"
  elapse :: "string list \<Rightarrow> string \<Rightarrow> nat"
  accepts :: "string \<Rightarrow> jsval \<Rightarrow> bool"
  fetch_file :: "string \<Rightarrow> response"
  file_elapse :: "string \<Rightarrow> nat"
  encodeURIComponent :: "string \<Rightarrow> string"
  str_of :: "jsval \<Rightarrow> string"
  num_of :: "jsval \<Rightarrow> jsval"
  url_pathname :: "jsval \<Rightarrow> string option"
  localeCompare :: "string \<Rightarrow> string \<Rightarrow> int"
  date_ms :: "jsval \<Rightarrow> jsval"
  toLowerCase :: "string \<Rightarrow> string"
  trim :: "string \<Rightarrow> string"
  parseInt :: "string \<Rightarrow> int option"

text \<open>
  The mutable state of one page: \<^verbatim>\<open>localStorage\<close> (each cache item as the JSON
  value its text decodes to, \<open>None\<close> for a missing or undecodable item, and the
  \<^verbatim>\<open>ghSort\<close> preference apart), the clock \<^verbatim>\<open>Date.now()\<close>, the counter
  \<^verbatim>\<open>GLOBAL_TOPICS_FETCH_BUDGET\<close>, the URLs dispatched through the request queue,
  and the number of calls of \<^verbatim>\<open>fetchRepoTopics\<close> made so far.
\<close>

record world =
  storage :: "string \<Rightarrow> jsval option"
  ghSort :: "string option"
  clock :: int
  budget :: int
  sent :: "string list"
  topic_calls :: nat

definition REQUEST_GAP_MS :: int where "REQUEST_GAP_MS = 600"
definition ORG_CACHE_TTL :: int where "ORG_CACHE_TTL = 30 * 60 * 1000"
definition GRID_CACHE_TTL :: int where "GRID_CACHE_TTL = 30 * 60 * 1000"
definition TOPIC_CACHE_TTL :: int where "TOPIC_CACHE_TTL = 7 * 24 * 60 * 60 * 1000"
definition BUDGET_CEILING :: int where "BUDGET_CEILING = 32"

text \<open>\<^verbatim>\<open>${v}\<close> in a template literal.\<close>

definition to_string :: "env \<Rightarrow> jsval \<Rightarrow> string" where
  "to_string e v = (case v of Str s \<Rightarrow> s | _ \<Rightarrow> str_of e v)"

section \<open>Cache store\<close>

definition getCache :: "world \<Rightarrow> string \<Rightarrow> jsval" where
  "getCache w key =
     (case storage w key of
        None \<Rightarrow> Null
      | Some ob \<Rightarrow> if \<not> truthy ob \<or> \<not> is_number (get ob ''ts'') then Null else ob)"

definition cache_entry :: "int \<Rightarrow> jsval \<Rightarrow> jsval" where
  "cache_entry t payload = json_rt (Obj [(''ts'', Num t), (''data'', payload)])"

definition setCache :: "env \<Rightarrow> world \<Rightarrow> string \<Rightarrow> jsval \<Rightarrow> world" where
  "setCache e w key payload =
     (let item = cache_entry (clock w) payload
      in if accepts e key item then w\<lparr>storage := (storage w)(key \<mapsto> item)\<rparr> else w)"

text \<open>\<^verbatim>\<open>cached && now() - cached.ts < ttl\<close>, for the value \<open>getCache\<close> returned.\<close>

definition is_fresh :: "world \<Rightarrow> jsval \<Rightarrow> int \<Rightarrow> bool" where
  "is_fresh w cached ttl =
     (truthy cached \<and>
      (case get cached ''ts'' of
         Num t \<Rightarrow> clock w - t < ttl
       | PosInf \<Rightarrow> True
       | _ \<Rightarrow> False))"

section \<open>Request queue, seen by one caller\<close>

definition res_ok :: "int \<Rightarrow> bool" where
  "res_ok status = (200 \<le> status \<and> status \<le> 299)"

definition fetchQueuedJSON :: "env \<Rightarrow> world \<Rightarrow> string \<Rightarrow> (err + jsval) \<times> world" where
  "fetchQueuedJSON e w url =
     (let w' = w\<lparr>sent := sent w @ [url], clock := clock w + int (elapse e (sent w) url)\<rparr>
      in (case respond e (sent w) url of
            Unreachable \<Rightarrow> Inl NetworkFailure
          | Reply status body \<Rightarrow>
              if \<not> res_ok status then Inl (HttpStatus status)
              else (case body of None \<Rightarrow> Inl BadJson | Some v \<Rightarrow> Inr v),
          w'))"

section \<open>Source fetchers\<close>

definition org_url :: "env \<Rightarrow> string \<Rightarrow> string" where
  "org_url e org =
     ''https://api.github.com/orgs/'' @ encodeURIComponent e org
       @ ''/repos?per_page=100&type=public&sort=updated''"

definition fetchOrgRepos :: "env \<Rightarrow> world \<Rightarrow> string \<Rightarrow> (err + jsval) \<times> world" where
  "fetchOrgRepos e w org =
     (let cacheKey = ''gh:orgrepos:'' @ org;
          cached = getCache w cacheKey
      in if is_fresh w cached ORG_CACHE_TTL then (Inr (get cached ''data''), w)
         else
           (case fetchQueuedJSON e w (org_url e org) of
              (Inl x, w') \<Rightarrow> (Inl x, w')
            | (Inr payload, w') \<Rightarrow> (Inr payload, setCache e w' cacheKey payload)))"

definition topics_key :: "env \<Rightarrow> string \<Rightarrow> jsval \<Rightarrow> string" where
  "topics_key e owner repo = ''gh:topics:'' @ owner @ ''/'' @ to_string e repo"

definition topics_url :: "env \<Rightarrow> string \<Rightarrow> jsval \<Rightarrow> string" where
  "topics_url e owner repo =
     ''https://api.github.com/repos/'' @ encodeURIComponent e owner @ ''/''
       @ encodeURIComponent e (to_string e repo) @ ''/topics''"

definition fetchRepoTopics :: "env \<Rightarrow> world \<Rightarrow> string \<Rightarrow> jsval \<Rightarrow> (err + jsval) \<times> world" where
  "fetchRepoTopics e w0 owner repo =
     (let w = w0\<lparr>topic_calls := Suc (topic_calls w0)\<rparr>;
          key = topics_key e owner repo;
          cached = getCache w key
      in if is_fresh w cached TOPIC_CACHE_TTL then (Inr (get cached ''data''), w)
         else
           (case fetchQueuedJSON e w (topics_url e owner repo) of
              (Inl x, w') \<Rightarrow> (Inl x, w')
            | (Inr payload, w') \<Rightarrow>
                (case read_prop payload ''names'' of
                   Inl x \<Rightarrow> (Inl x, w')
                 | Inr ns \<Rightarrow>
                     (let names = (if isArray ns then ns else Arr [])
                      in (Inr names, setCache e w' key names)))))"

definition detail_key :: "string \<Rightarrow> string \<Rightarrow> string" where
  "detail_key owner repo = ''gh:repodetail:'' @ owner @ ''/'' @ repo"

definition detail_url :: "env \<Rightarrow> string \<Rightarrow> string \<Rightarrow> string" where
  "detail_url e owner repo =
     ''https://api.github.com/repos/'' @ encodeURIComponent e owner @ ''/''
       @ encodeURIComponent e repo"

definition fetchRepoDetails :: "env \<Rightarrow> world \<Rightarrow> string \<Rightarrow> string \<Rightarrow> (err + jsval) \<times> world" where
  "fetchRepoDetails e w owner repo =
     (let key = detail_key owner repo;
          cached = getCache w key
      in if is_fresh w cached GRID_CACHE_TTL then (Inr (get cached ''data''), w)
         else
           (case fetchQueuedJSON e w (detail_url e owner repo) of
              (Inl x, w') \<Rightarrow> (Inl x, w')
            | (Inr payload, w') \<Rightarrow> (Inr payload, setCache e w' key payload)))"

definition user_url :: "env \<Rightarrow> string \<Rightarrow> string" where
  "user_url e user =
     ''https://api.github.com/users/'' @ encodeURIComponent e user
       @ ''/repos?per_page=100&sort=updated''"


definition gridorg_url :: "env \<Rightarrow> string \<Rightarrow> string" where
  "gridorg_url e org =
     ''https://api.github.com/orgs/'' @ encodeURIComponent e org
       @ ''/repos?per_page=100&type=public&sort=updated''"



section \<open>Numbers and sorting\<close>

text \<open>
  \<^verbatim>\<open>ToNumber\<close>, with the conversion of strings, arrays and objects left to the
  environment, and the subtraction of two numbers.
\<close>

definition to_number :: "env \<Rightarrow> jsval \<Rightarrow> jsval" where
  "to_number e v =
     (case v of
        Undefined \<Rightarrow> NaN
      | Null \<Rightarrow> Num 0
      | Bool b \<Rightarrow> Num (if b then 1 else 0)
      | Num n \<Rightarrow> Num n
      | NaN \<Rightarrow> NaN
      | PosInf \<Rightarrow> PosInf
      | NegInf \<Rightarrow> NegInf
      | _ \<Rightarrow> (if is_number (num_of e v) then num_of e v else NaN))"

fun num_sub :: "jsval \<Rightarrow> jsval \<Rightarrow> jsval" where
  "num_sub (Num a) (Num b) = Num (a - b)"
| "num_sub (Num a) PosInf = NegInf"
| "num_sub (Num a) NegInf = PosInf"
| "num_sub PosInf (Num b) = PosInf"
| "num_sub PosInf NegInf = PosInf"
| "num_sub NegInf (Num b) = NegInf"
| "num_sub NegInf PosInf = NegInf"
| "num_sub a b = NaN"

definition js_sub :: "env \<Rightarrow> jsval \<Rightarrow> jsval \<Rightarrow> jsval" where
  "js_sub e a b = num_sub (to_number e a) (to_number e b)"

text \<open>
  \<^verbatim>\<open>Array.prototype.sort\<close> with a comparator. The sort is stable, and a comparator
  result that is positive puts its first argument after its second; zero and
  \<^verbatim>\<open>NaN\<close> leave the two in their order. The model is the stable insertion sort,
  which is the result of every stable sort when the comparator is a consistent
  ordering of the elements, and it raises what the comparator raises.
\<close>

fun is_positive :: "jsval \<Rightarrow> bool" where
  "is_positive (Num n) = (0 < n)"
| "is_positive PosInf = True"
| "is_positive v = False"

fun insert_sorted :: "('a \<Rightarrow> 'a \<Rightarrow> err + jsval) \<Rightarrow> 'a \<Rightarrow> 'a list \<Rightarrow> err + 'a list" where
  "insert_sorted cmp x [] = Inr [x]"
| "insert_sorted cmp x (y # ys) =
     (case cmp x y of
        Inl ex \<Rightarrow> Inl ex
      | Inr c \<Rightarrow>
          if is_positive c
          then (case insert_sorted cmp x ys of Inl ex \<Rightarrow> Inl ex | Inr zs \<Rightarrow> Inr (y # zs))
          else Inr (x # y # ys))"

fun js_sort :: "('a \<Rightarrow> 'a \<Rightarrow> err + jsval) \<Rightarrow> 'a list \<Rightarrow> err + 'a list" where
  "js_sort cmp [] = Inr []"
| "js_sort cmp (x # xs) =
     (case js_sort cmp xs of Inl ex \<Rightarrow> Inl ex | Inr ys \<Rightarrow> insert_sorted cmp x ys)"

text \<open>\<^verbatim>\<open>a.name.localeCompare(b.name)\<close>: a TypeError unless \<^verbatim>\<open>a.name\<close> is a string.\<close>

definition cmp_name :: "env \<Rightarrow> jsval \<Rightarrow> jsval \<Rightarrow> err + jsval" where
  "cmp_name e a b =
     (case get a ''name'' of
        Str s \<Rightarrow> Inr (Num (localeCompare e s (to_string e (get b ''name''))))
      | _ \<Rightarrow> Inl TypeError)"

definition cmp_stars :: "env \<Rightarrow> jsval \<Rightarrow> jsval \<Rightarrow> err + jsval" where
  "cmp_stars e a b =
     (let d = js_sub e (get b ''stargazers_count'') (get a ''stargazers_count'')
      in if truthy d then Inr d else cmp_name e a b)"

definition cmp_pushed :: "env \<Rightarrow> jsval \<Rightarrow> jsval \<Rightarrow> err + jsval" where
  "cmp_pushed e a b =
     Inr (num_sub (date_ms e (get b ''pushed_at'')) (date_ms e (get a ''pushed_at'')))"

section \<open>Organisation cards\<close>

text \<open>The attributes of one \<^verbatim>\<open>.org-card\<close> element that the data path reads.\<close>

record card =
  data_org :: string
  has_repo_list :: bool
  data_exclude_forks :: "string option"
  data_exclude_archived :: "string option"
  data_sort :: "string option"
  data_topics_deep_limit :: "string option"

text \<open>\<^verbatim>\<open>(attr ?? "true") !== "false"\<close>.\<close>

definition flag_attr :: "string option \<Rightarrow> bool" where
  "flag_attr a = ((case a of None \<Rightarrow> ''true'' | Some s \<Rightarrow> s) \<noteq> ''false'')"

text \<open>\<^verbatim>\<open>attr || dflt\<close> for an attribute, which is a string or \<^verbatim>\<open>null\<close>.\<close>

definition attr_or :: "string option \<Rightarrow> string \<Rightarrow> string" where
  "attr_or a dflt = (case a of None \<Rightarrow> dflt | Some s \<Rightarrow> if s = [] then dflt else s)"

text \<open>
  \<^verbatim>\<open>xs.filter(r => !r.field)\<close>: the callback reads a property of every element, so
  one \<^verbatim>\<open>null\<close> element raises.
\<close>

definition reject_by :: "string \<Rightarrow> jsval list \<Rightarrow> err + jsval list" where
  "reject_by field xs =
     (if \<exists>r \<in> set xs. nullish r then Inl TypeError
      else Inr (filter (\<lambda>r. \<not> truthy (get r field)) xs))"

definition applyCardFilters :: "jsval \<Rightarrow> card \<Rightarrow> err + jsval list" where
  "applyCardFilters repos cardEl =
     (case repos of
        Arr xs \<Rightarrow>
          bindE (reject_by ''private'' xs) (\<lambda>out.
          bindE (if flag_attr (data_exclude_forks cardEl) then reject_by ''fork'' out else Inr out)
            (\<lambda>out.
          if flag_attr (data_exclude_archived cardEl) then reject_by ''archived'' out else Inr out))
      | _ \<Rightarrow> Inl TypeError)"

definition sortForCard :: "env \<Rightarrow> jsval list \<Rightarrow> string \<Rightarrow> err + jsval list" where
  "sortForCard e repos mode =
     (if mode = ''stars'' then js_sort (cmp_stars e) repos
      else if mode = ''name'' then js_sort (cmp_name e) repos
      else js_sort (cmp_pushed e) repos)"

section \<open>Topic budget\<close>

text \<open>\<^verbatim>\<open>!Array.isArray(r.topics) || r.topics.length === 0\<close>.\<close>

definition needs_topics :: "jsval \<Rightarrow> bool" where
  "needs_topics r = (case get r ''topics'' of Arr ts \<Rightarrow> ts = [] | _ \<Rightarrow> True)"

text \<open>
  \<^verbatim>\<open>Math.max(0, Math.min(maxRequests, GLOBAL_TOPICS_FETCH_BUDGET))\<close> as the end of
  a \<^verbatim>\<open>slice(0, _)\<close>. \<open>maxRequests\<close> comes from \<^verbatim>\<open>parseInt\<close>, so it is an integer or
  \<^verbatim>\<open>NaN\<close> (\<open>None\<close>), and a \<^verbatim>\<open>NaN\<close> end slices nothing.
\<close>

definition slice_end :: "int option \<Rightarrow> int \<Rightarrow> nat" where
  "slice_end maxRequests b =
     (case maxRequests of None \<Rightarrow> 0 | Some n \<Rightarrow> nat (max 0 (min n b)))"

text \<open>\<^verbatim>\<open>r.topics = v\<close>: stored on an object, dropped on a primitive.\<close>

fun set_prop :: "jsval \<Rightarrow> string \<Rightarrow> jsval \<Rightarrow> jsval" where
  "set_prop (Obj kvs) k v = Obj (AList.update k v kvs)"
| "set_prop r k v = r"

text \<open>
  The elements of \<^verbatim>\<open>need\<close> are the objects of \<^verbatim>\<open>repos\<close> themselves, so the loop
  runs over their positions and writes the fetched topics into \<^verbatim>\<open>repos\<close>.
\<close>

definition need_indices :: "jsval list \<Rightarrow> nat list" where
  "need_indices repos = filter (\<lambda>i. needs_topics (repos ! i)) [0..<length repos]"

fun topics_loop :: "env \<Rightarrow> string \<Rightarrow> nat list \<Rightarrow> jsval list \<Rightarrow> world \<Rightarrow> jsval list \<times> world" where
  "topics_loop e org [] repos w = (repos, w)"
| "topics_loop e org (i # rest) repos w =
     (if budget w \<le> 0 then (repos, w)
      else
        (case fetchRepoTopics e w org (get (repos ! i) ''name'') of
           (res, w1) \<Rightarrow>
             topics_loop e org rest
               (case res of
                  Inr ts \<Rightarrow> repos[i := set_prop (repos ! i) ''topics'' ts]
                | Inl ex \<Rightarrow> repos)
               (w1\<lparr>budget := budget w1 - 1\<rparr>)))"

definition candidates :: "jsval list \<Rightarrow> int option \<Rightarrow> int \<Rightarrow> nat list" where
  "candidates repos maxRequests b = take (slice_end maxRequests b) (need_indices repos)"

definition ensureTopicsFor ::
  "env \<Rightarrow> world \<Rightarrow> string \<Rightarrow> jsval list \<Rightarrow> int option \<Rightarrow> (err + jsval list) \<times> world" where
  "ensureTopicsFor e w org repos maxRequests =
     (if \<exists>r \<in> set repos. nullish r then (Inl TypeError, w)
      else
        (let need = candidates repos maxRequests (budget w)
         in case topics_loop e org need repos w of (repos', w') \<Rightarrow> (Inr repos', w')))"

text \<open>
  \<^verbatim>\<open>fillOrgCards\<close>, one card after the other. Only the effect on the state is
  modelled; the writes to the page do not touch it.
\<close>

definition fill_card :: "env \<Rightarrow> card \<Rightarrow> world \<Rightarrow> world" where
  "fill_card e c w =
     (if data_org c = [] \<or> \<not> has_repo_list c then w
      else
        (case fetchOrgRepos e w (data_org c) of
           (Inl ex, w1) \<Rightarrow> w1
         | (Inr repos, w1) \<Rightarrow>
             (case applyCardFilters repos c of
                Inl ex \<Rightarrow> w1
              | Inr filteredAll \<Rightarrow>
                  (case sortForCard e filteredAll
                          (toLowerCase e (attr_or (data_sort c) ''pushed'')) of
                     Inl ex \<Rightarrow> w1
                   | Inr ordered \<Rightarrow>
                       snd (ensureTopicsFor e w1 (data_org c) ordered
                              (parseInt e (attr_or (data_topics_deep_limit c) ''24'')))))))"

fun fillOrgCards :: "env \<Rightarrow> card list \<Rightarrow> world \<Rightarrow> world" where
  "fillOrgCards e [] w = w"
| "fillOrgCards e (c # cs) w = fillOrgCards e cs (fill_card e c w)"

section \<open>Strings\<close>

text \<open>\<^verbatim>\<open>s.split(c)\<close> for a one-character separator.\<close>

fun split_on :: "char \<Rightarrow> string \<Rightarrow> string list" where
  "split_on c [] = [[]]"
| "split_on c (x # xs) =
     (if x = c then [] # split_on c xs
      else (case split_on c xs of
              [] \<Rightarrow> [[x]]
            | y # ys \<Rightarrow> (x # y) # ys))"

text \<open>\<^verbatim>\<open>s.replace(/^\/|\/$/g, "")\<close>: one leading and one trailing slash go.\<close>

definition strip_slashes :: "string \<Rightarrow> string" where
  "strip_slashes s =
     (let s1 = (case s of [] \<Rightarrow> [] | c # cs \<Rightarrow> if c = CHR ''/'' then cs else s)
      in if s1 \<noteq> [] \<and> last s1 = CHR ''/'' then butlast s1 else s1)"

text \<open>The decimal name of an array index, as a property key.\<close>

fun show_nat :: "nat \<Rightarrow> string" where
  "show_nat n =
     (if n < 10 then [''0123456789'' ! n]
      else show_nat (n div 10) @ [''0123456789'' ! (n mod 10)])"

text \<open>\<^verbatim>\<open>v.trim()\<close>: a TypeError unless \<open>v\<close> is a string.\<close>

definition trimmed :: "env \<Rightarrow> jsval \<Rightarrow> err + string" where
  "trimmed e v = (case v of Str s \<Rightarrow> Inr (trim e s) | _ \<Rightarrow> Inl TypeError)"

text \<open>\<^verbatim>\<open>{...a, ...b}\<close>.\<close>

definition spread2 :: "jsval \<Rightarrow> jsval \<Rightarrow> jsval" where
  "spread2 a b = Obj (assign (assign [] (own_props show_nat a)) (own_props show_nat b))"

section \<open>Manual repositories\<close>

text \<open>
  \<^verbatim>\<open>normalizeManualRepo\<close>. The result \<open>Inr Null\<close> is the \<^verbatim>\<open>null\<close> that
  \<^verbatim>\<open>filter(Boolean)\<close> drops; \<open>Inl\<close> is an exception, which makes
  \<^verbatim>\<open>loadManualRepos\<close> reject.
\<close>

definition normalizeManualRepo :: "env \<Rightarrow> jsval \<Rightarrow> err + jsval" where
  "normalizeManualRepo e it0 =
     (let it = (if it0 = Undefined then Obj [] else it0)
      in if it = Null then Inl TypeError
         else
           bindE (trimmed e (js_or (get it ''full_name'') (Str ''''))) (\<lambda>full0.
             let link = js_or (get it ''html_url'') (get it ''url'');
                 full = (if full0 = [] \<and> truthy link
                         then (case url_pathname e link of
                                 None \<Rightarrow> full0
                               | Some p \<Rightarrow> strip_slashes p)
                         else full0)
             in if full = [] \<or> CHR ''/'' \<notin> set full then Inr Null
                else
                  bindE (trimmed e (js_or (get it ''name'')
                                      (Str (case split_on CHR ''/'' full of
                                              a # b # rest \<Rightarrow> b
                                            | _ \<Rightarrow> [])))) (\<lambda>name.
                    let html_url = js_or link (Str (''https://github.com/'' @ full));
                        stars = to_number e
                                  (if \<not> nullish (get it ''stars'') then get it ''stars''
                                   else if \<not> nullish (get it ''stargazers_count'')
                                        then get it ''stargazers_count''
                                        else Num 0)
                    in Inr (Obj
                         [(''full_name'', Str full),
                          (''name'', Str name),
                          (''html_url'', html_url),
                          (''description'', js_or (get it ''description'') (Str '''')),
                          (''language'', js_or (get it ''language'') (Str '''')),
                          (''stargazers_count'', if isFinite stars then stars else Num 0),
                          (''pushed_at'', js_or (get it ''pushed_at'') Null),
                          (''archived'', to_bool (get it ''archived'')),
                          (''fork'', to_bool (get it ''fork'')),
                          (''private'', to_bool (get it ''private'')),
                          (''topics'', if isArray (get it ''topics'') then get it ''topics''
                                       else Arr []),
                          (''_pinned'', to_bool (get it ''pinned''))]))))"

fun mapE :: "('a \<Rightarrow> err + 'b) \<Rightarrow> 'a list \<Rightarrow> err + 'b list" where
  "mapE f [] = Inr []"
| "mapE f (x # xs) =
     (case f x of
        Inl ex \<Rightarrow> Inl ex
      | Inr y \<Rightarrow> (case mapE f xs of Inl ex \<Rightarrow> Inl ex | Inr ys \<Rightarrow> Inr (y # ys)))"

definition loadManualRepos :: "env \<Rightarrow> string \<Rightarrow> err + jsval list" where
  "loadManualRepos e src =
     (if src = [] then Inr []
      else
        (case fetch_file e src of
           Unreachable \<Rightarrow> Inr []
         | Reply status body \<Rightarrow>
             if \<not> res_ok status then Inr []
             else
               (case body of
                  Some (Arr items) \<Rightarrow>
                    bindE (mapE (normalizeManualRepo e) items) (\<lambda>rs. Inr (filter truthy rs))
                | _ \<Rightarrow> Inr [])))"

section \<open>Hydration\<close>

text \<open>The object \<^verbatim>\<open>fetchedNorm\<close>, for a response that is not \<^verbatim>\<open>null\<close>.\<close>

definition fetchedNorm :: "jsval \<Rightarrow> jsval \<Rightarrow> string \<Rightarrow> jsval" where
  "fetchedNorm fetched m full =
     Obj
       [(''full_name'', js_or (get fetched ''full_name'') (get m ''full_name'')),
        (''name'', js_or (get fetched ''name'') (get m ''name'')),
        (''html_url'', js_or (js_or (get fetched ''html_url'') (get m ''html_url''))
                         (Str (''https://github.com/'' @ full))),
        (''description'', coalesce (get fetched ''description'') (Str '''')),
        (''language'', coalesce (get fetched ''language'') (Str '''')),
        (''stargazers_count'', coalesce (get fetched ''stargazers_count'') (Num 0)),
        (''pushed_at'', js_or (get fetched ''pushed_at'') (get m ''pushed_at'')),
        (''archived'', to_bool (get fetched ''archived'')),
        (''fork'', to_bool (get fetched ''fork'')),
        (''private'', to_bool (get fetched ''private'')),
        (''topics'', if isArray (get fetched ''topics'') then get fetched ''topics'' else Arr [])]"

text \<open>\<^verbatim>\<open>Array.isArray(v) && v.length\<close>.\<close>

fun nonempty_array :: "jsval \<Rightarrow> bool" where
  "nonempty_array (Arr xs) = (xs \<noteq> [])"
| "nonempty_array v = False"

text \<open>The object \<^verbatim>\<open>merged\<close>: both spreads, then the three explicit properties.\<close>

definition merged :: "jsval \<Rightarrow> jsval \<Rightarrow> jsval" where
  "merged fnorm m =
     Obj (assign (assign (assign [] (own_props show_nat fnorm)) (own_props show_nat m))
       [(''stargazers_count'',
           if isFinite (get m ''stargazers_count'') then get m ''stargazers_count''
           else get fnorm ''stargazers_count''),
        (''topics'',
           if nonempty_array (get m ''topics'') then get m ''topics'' else get fnorm ''topics''),
        (''pushed_at'',
           if truthy (get m ''pushed_at'') then get m ''pushed_at'' else get fnorm ''pushed_at'')])"

text \<open>
  One turn of the loop of \<^verbatim>\<open>hydrateManualRepos\<close>. \<open>Inl\<close> is an exception raised
  outside the \<^verbatim>\<open>try\<close>, which ends the whole loop; inside the \<^verbatim>\<open>try\<close>, a failed
  fetch and a \<^verbatim>\<open>null\<close> response both push the manual record as it is.
\<close>

definition hydrate_one :: "env \<Rightarrow> world \<Rightarrow> jsval \<Rightarrow> (err + jsval) \<times> world" where
  "hydrate_one e w m =
     (if nullish m then (Inl TypeError, w)
      else
        (case js_or (get m ''full_name'') (Str '''') of
           Str full \<Rightarrow>
             (case split_on CHR ''/'' full of
                owner # name # rest \<Rightarrow>
                  if owner = [] \<or> name = [] then (Inr m, w)
                  else
                    (case fetchRepoDetails e w owner name of
                       (Inl ex, w') \<Rightarrow> (Inr m, w')
                     | (Inr fetched, w') \<Rightarrow>
                         if nullish fetched then (Inr m, w')
                         else (Inr (merged (fetchedNorm fetched m full) m), w'))
              | _ \<Rightarrow> (Inr m, w))
         | _ \<Rightarrow> (Inl TypeError, w)))"

fun hydrateManualRepos :: "env \<Rightarrow> world \<Rightarrow> jsval list \<Rightarrow> (err + jsval list) \<times> world" where
  "hydrateManualRepos e w [] = (Inr [], w)"
| "hydrateManualRepos e w (m # ms) =
     (case hydrate_one e w m of
        (Inl ex, w') \<Rightarrow> (Inl ex, w')
      | (Inr r, w') \<Rightarrow>
          (case hydrateManualRepos e w' ms of
             (Inl ex, w'') \<Rightarrow> (Inl ex, w'')
           | (Inr rs, w'') \<Rightarrow> (Inr (r # rs), w'')))"

section \<open>Grid: sources and aggregation\<close>

text \<open>The options read from the attributes of \<^verbatim>\<open>#ghGrid\<close>, and whether it exists.\<close>

record grid_cfg =
  has_grid :: bool
  USER :: string
  ORGS :: "string list"
  EXCLUDE_FORKS :: bool
  EXCLUDE_ARCHIVED :: bool
  PINNED :: "string list"
  MANUAL_SRC :: string

text \<open>
  An asynchronous fetcher runs up to its first \<^verbatim>\<open>await\<close> when it is called: it
  reads the cache and either has the payload or has put its request on the queue.
  \<^verbatim>\<open>fetchAllForGrid\<close> calls the user fetcher and every organisation fetcher that
  way, one after the other and before anything else happens, so all of them read
  the cache of the state they were started in. The queue then serves the requests in
  that order, and each answer is written to the cache when it arrives.
\<close>

datatype pending = Ready jsval | Queued string string

definition start_fetch :: "world \<Rightarrow> string \<Rightarrow> int \<Rightarrow> string \<Rightarrow> pending" where
  "start_fetch w key ttl url =
     (let cached = getCache w key
      in if is_fresh w cached ttl then Ready (get cached ''data'') else Queued key url)"

definition finish_fetch :: "env \<Rightarrow> world \<Rightarrow> pending \<Rightarrow> (err + jsval) \<times> world" where
  "finish_fetch e w p =
     (case p of
        Ready payload \<Rightarrow> (Inr payload, w)
      | Queued key url \<Rightarrow>
          (case fetchQueuedJSON e w url of
             (Inl ex, w') \<Rightarrow> (Inl ex, w')
           | (Inr payload, w') \<Rightarrow> (Inr payload, setCache e w' key payload)))"

fun finish_all :: "env \<Rightarrow> world \<Rightarrow> pending list \<Rightarrow> (err + jsval) list \<times> world" where
  "finish_all e w [] = ([], w)"
| "finish_all e w (p # ps) =
     (case finish_fetch e w p of
        (r, w') \<Rightarrow> (case finish_all e w' ps of (rs, w'') \<Rightarrow> (r # rs, w'')))"

definition start_parts :: "env \<Rightarrow> grid_cfg \<Rightarrow> world \<Rightarrow> pending list" where
  "start_parts e cfg w =
     start_fetch w (''gh:userrepos:'' @ USER cfg) GRID_CACHE_TTL (user_url e (USER cfg))
       # map (\<lambda>org. start_fetch w (''gh:gridorg:'' @ org) GRID_CACHE_TTL (gridorg_url e org))
           (ORGS cfg)"

text \<open>\<^verbatim>\<open>Promise.all\<close>: the values in order, or the first rejection.\<close>

fun all_parts :: "(err + jsval) list \<Rightarrow> err + jsval list" where
  "all_parts [] = Inr []"
| "all_parts (Inl ex # rs) = Inl ex"
| "all_parts (Inr v # rs) = (case all_parts rs of Inl ex \<Rightarrow> Inl ex | Inr vs \<Rightarrow> Inr (v # vs))"

text \<open>\<^verbatim>\<open>arrays.flat()\<close>: one level; a payload that is not an array stays an element.\<close>

fun flat :: "jsval list \<Rightarrow> jsval list" where
  "flat [] = []"
| "flat (Arr xs # rest) = xs @ flat rest"
| "flat (v # rest) = v # flat rest"

text \<open>
  A \<^verbatim>\<open>Map\<close> in insertion order. Keys are compared by value when they are
  primitives; an array or an object used as a key is equal to itself only, and no
  two values decoded from JSON are the same object.
\<close>

fun same_key :: "jsval \<Rightarrow> jsval \<Rightarrow> bool" where
  "same_key (Arr xs) k = False"
| "same_key (Obj kvs) k = False"
| "same_key k' k = (k' = k)"

fun map_set :: "(jsval \<times> jsval) list \<Rightarrow> jsval \<Rightarrow> jsval \<Rightarrow> (jsval \<times> jsval) list" where
  "map_set [] k v = [(k, v)]"
| "map_set ((k', v') # rest) k v =
     (if same_key k' k then (k', v) # rest else (k', v') # map_set rest k v)"

fun map_get :: "(jsval \<times> jsval) list \<Rightarrow> jsval \<Rightarrow> jsval" where
  "map_get [] k = Undefined"
| "map_get ((k', v') # rest) k = (if same_key k' k then v' else map_get rest k)"

text \<open>The de-duplication at the end of \<^verbatim>\<open>fetchAllForGrid\<close>.\<close>

fun map_of_fetched :: "(jsval \<times> jsval) list \<Rightarrow> jsval list \<Rightarrow> (jsval \<times> jsval) list" where
  "map_of_fetched mp [] = mp"
| "map_of_fetched mp (r # rs) = map_of_fetched (map_set mp (get r ''full_name'') r) rs"

fun add_manual :: "(jsval \<times> jsval) list \<Rightarrow> jsval list \<Rightarrow> (jsval \<times> jsval) list" where
  "add_manual mp [] = mp"
| "add_manual mp (m # ms) =
     add_manual
       (map_set mp (get m ''full_name'') (spread2 (map_get mp (get m ''full_name'')) m)) ms"

definition dedupe :: "jsval list \<Rightarrow> jsval list \<Rightarrow> err + jsval list" where
  "dedupe fetched manualHydrated =
     (if \<exists>r \<in> set fetched. nullish r then Inl TypeError
      else if \<exists>m \<in> set manualHydrated. nullish m then Inl TypeError
      else Inr (map snd (add_manual (map_of_fetched [] fetched) manualHydrated)))"

text \<open>
  The sources of \<^verbatim>\<open>fetchAllForGrid\<close>: the results of the part promises, and the
  manual records after hydration. A rejected \<^verbatim>\<open>loadManualRepos\<close> counts as no
  manual records, a rejected \<^verbatim>\<open>hydrateManualRepos\<close> as the manual records
  unhydrated. The manual file is loaded, and the manual records are hydrated, while
  the queue works on the part requests; their detail requests queue behind those,
  and the model runs them after.
\<close>

definition manual_base :: "env \<Rightarrow> grid_cfg \<Rightarrow> jsval list" where
  "manual_base e cfg =
     (case loadManualRepos e (MANUAL_SRC cfg) of Inl ex \<Rightarrow> [] | Inr ms \<Rightarrow> ms)"

definition hydration_start :: "env \<Rightarrow> grid_cfg \<Rightarrow> world \<Rightarrow> world" where
  "hydration_start e cfg w =
     (let w1 = snd (finish_all e w (start_parts e cfg w))
      in w1\<lparr>clock := clock w1 + int (file_elapse e (MANUAL_SRC cfg))\<rparr>)"

definition grid_sources ::
  "env \<Rightarrow> grid_cfg \<Rightarrow> world \<Rightarrow> (err + jsval) list \<times> jsval list \<times> world" where
  "grid_sources e cfg w =
     (let parts = fst (finish_all e w (start_parts e cfg w));
          manualBase = manual_base e cfg
      in case hydrateManualRepos e (hydration_start e cfg w) manualBase of
           (Inl ex, w3) \<Rightarrow> (parts, manualBase, w3)
         | (Inr manualHydrated, w3) \<Rightarrow> (parts, manualHydrated, w3))"

definition fetchAllForGrid :: "env \<Rightarrow> grid_cfg \<Rightarrow> world \<Rightarrow> (err + jsval list) \<times> world" where
  "fetchAllForGrid e cfg w =
     (case grid_sources e cfg w of
        (parts, manualHydrated, w') \<Rightarrow>
          (bindE (all_parts parts) (\<lambda>arrays. dedupe (flat arrays) manualHydrated), w'))"

section \<open>Grid: rendering\<close>

text \<open>\<^verbatim>\<open>(v || "").toLowerCase()\<close>: a TypeError when \<open>v\<close> is truthy and not a string.\<close>

definition lowered :: "env \<Rightarrow> jsval \<Rightarrow> err + string" where
  "lowered e v =
     (case js_or v (Str '''') of Str s \<Rightarrow> Inr (toLowerCase e s) | _ \<Rightarrow> Inl TypeError)"

definition isPinnedGrid :: "env \<Rightarrow> grid_cfg \<Rightarrow> jsval \<Rightarrow> err + bool" where
  "isPinnedGrid e cfg r =
     (if \<not> nullish r \<and> get r ''_pinned'' = Bool True then Inr True
      else if nullish r then Inl TypeError
      else
        bindE (lowered e (get r ''name'')) (\<lambda>n.
          if n \<in> set (PINNED cfg) then Inr True
          else bindE (lowered e (get r ''full_name'')) (\<lambda>f. Inr (f \<in> set (PINNED cfg)))))"

definition sortRepos :: "env \<Rightarrow> jsval list \<Rightarrow> string \<Rightarrow> err + jsval list" where
  "sortRepos e repos mode =
     (if mode = ''stars'' then js_sort (cmp_stars e) repos
      else js_sort (cmp_pushed e) repos)"

definition applyGridFilters :: "grid_cfg \<Rightarrow> jsval list \<Rightarrow> err + jsval list" where
  "applyGridFilters cfg raw =
     bindE (reject_by ''private'' raw) (\<lambda>repos.
     bindE (if EXCLUDE_FORKS cfg then reject_by ''fork'' repos else Inr repos) (\<lambda>repos.
     if EXCLUDE_ARCHIVED cfg then reject_by ''archived'' repos else Inr repos))"

text \<open>\<^verbatim>\<open>isPinnedGrid(b) - isPinnedGrid(a)\<close>.\<close>

definition cmp_pinned :: "env \<Rightarrow> grid_cfg \<Rightarrow> jsval \<Rightarrow> jsval \<Rightarrow> err + jsval" where
  "cmp_pinned e cfg a b =
     bindE (isPinnedGrid e cfg b) (\<lambda>pb.
     bindE (isPinnedGrid e cfg a) (\<lambda>pa.
       Inr (Num ((if pb then 1 else 0) - (if pa then 1 else 0)))))"

text \<open>
  \<^verbatim>\<open>repoCard\<close>, as far as it can raise: the markup is not modelled, the result is
  the record shown. \<^verbatim>\<open>esc\<close> raises on anything but a string, its default
  parameter taking the place of \<^verbatim>\<open>undefined\<close>.
\<close>

definition repoCard :: "env \<Rightarrow> grid_cfg \<Rightarrow> jsval \<Rightarrow> err + jsval" where
  "repoCard e cfg r =
     bindE (isPinnedGrid e cfg r) (\<lambda>badge.
       if truthy (get r ''description'') \<and> \<not> is_string (get r ''description'')
       then Inl TypeError
       else if get r ''name'' \<noteq> Undefined \<and> \<not> is_string (get r ''name'') then Inl TypeError
       else Inr r)"

datatype view = NoGrid | Cards "jsval list" | LoadError

text \<open>\<^verbatim>\<open>modeFromUI || localStorage.getItem("ghSort") || "pushed"\<close>.\<close>

definition sort_mode :: "string option \<Rightarrow> world \<Rightarrow> string" where
  "sort_mode modeFromUI w = attr_or modeFromUI (attr_or (ghSort w) ''pushed'')"

definition present :: "env \<Rightarrow> grid_cfg \<Rightarrow> string \<Rightarrow> jsval list \<Rightarrow> err + jsval list" where
  "present e cfg mode raw =
     bindE (applyGridFilters cfg raw) (\<lambda>repos.
     bindE (sortRepos e repos mode) (\<lambda>repos.
     bindE (js_sort (cmp_pinned e cfg) repos) (\<lambda>repos.
       mapE (repoCard e cfg) repos)))"

definition renderGrid :: "env \<Rightarrow> grid_cfg \<Rightarrow> world \<Rightarrow> string option \<Rightarrow> view \<times> world" where
  "renderGrid e cfg w modeFromUI =
     (if \<not> has_grid cfg then (NoGrid, w)
      else
        (case fetchAllForGrid e cfg w of
           (Inl ex, w') \<Rightarrow> (LoadError, w')
         | (Inr raw, w') \<Rightarrow>
             (case present e cfg (sort_mode modeFromUI w') raw of
                Inl ex \<Rightarrow> (LoadError, w')
              | Inr shown \<Rightarrow> (Cards shown, w'))))"

text \<open>\<^verbatim>\<open>boot\<close>: the organisation cards, when their container exists, then the grid.\<close>

definition boot :: "env \<Rightarrow> grid_cfg \<Rightarrow> card list option \<Rightarrow> world \<Rightarrow> view \<times> world" where
  "boot e cfg orgsContainer w =
     renderGrid e cfg
       (case orgsContainer of None \<Rightarrow> w | Some cards \<Rightarrow> fillOrgCards e cards w) None"
section \<open>Vocabulary of the statements\<close>

text \<open>
  The key holds the entry that \<open>setCache\<close> wrote at time \<open>t\<close> for \<open>payload\<close>, and
  it is younger than \<open>ttl\<close> (\<open>cache_hit\<close>); or the key holds nothing, or that entry
  has reached \<open>ttl\<close> (\<open>cache_miss\<close>).
\<close>

definition cache_hit :: "world \<Rightarrow> string \<Rightarrow> int \<Rightarrow> jsval \<Rightarrow> int \<Rightarrow> bool" where
  "cache_hit w key t payload ttl =
     (storage w key = Some (cache_entry t payload) \<and> clock w - t < ttl)"


text \<open>
  The two outcomes of a fetcher call \<open>r\<close> started in \<open>w\<close>: the payload came from the
  cache and neither the request log nor the store changed; or exactly one request
  for \<open>url\<close> was sent and the store was overwritten under \<open>key\<close> on success and left
  alone on failure.
\<close>

definition served_from_cache :: "(err + jsval) \<times> world \<Rightarrow> world \<Rightarrow> jsval \<Rightarrow> bool" where
  "served_from_cache r w payload =
     (fst r = Inr payload \<and> sent (snd r) = sent w \<and> storage (snd r) = storage w)"


text \<open>A concrete environment and two concrete states, for instances of the theorems.\<close>

definition sample_env :: env where
  "sample_env =
     \<lparr>respond = (\<lambda>hist url. Reply 200 (Some (Arr []))),
      elapse = (\<lambda>hist url. 250),
      accepts = (\<lambda>key item. True),
      fetch_file = (\<lambda>url. Unreachable),
      file_elapse = (\<lambda>url. 40),
      encodeURIComponent = (\<lambda>s. s),
      str_of = (\<lambda>v. ''undefined''),
      num_of = (\<lambda>v. NaN),
      url_pathname = (\<lambda>v. None),
      localeCompare = (\<lambda>a b. if a < b then - 1 else if a = b then 0 else 1),
      date_ms = (\<lambda>v. NaN),
      toLowerCase = (\<lambda>s. s),
      trim = (\<lambda>s. s),
      parseInt = (\<lambda>s. None)\<rparr>"

definition warm_world :: world where
  "warm_world =
     \<lparr>storage = (\<lambda>key. Some (cache_entry 1000 (Arr []))), ghSort = None, clock = 2000,
      budget = 32, sent = [], topic_calls = 0\<rparr>"

definition cold_world :: world where
  "cold_world =
     \<lparr>storage = (\<lambda>key. None), ghSort = None, clock = 2000,
      budget = 32, sent = [], topic_calls = 0\<rparr>"

definition budget_ok :: "world \<Rightarrow> bool" where
  "budget_ok w = (0 \<le> budget w \<and> int (topic_calls w) + budget w = BUDGET_CEILING)"

definition offline_env :: env where
  "offline_env = sample_env\<lparr>respond := (\<lambda>hist url. Unreachable)\<rparr>"

definition one_repo :: "jsval list" where
  "one_repo = [Obj [(''name'', Str ''site''), (''topics'', Arr [])]]"

definition page_start :: "world \<Rightarrow> bool" where
  "page_start w = (budget w = BUDGET_CEILING \<and> topic_calls w = 0)"

definition acme_card :: card where
  "acme_card =
     \<lparr>data_org = ''acme'', has_repo_list = True, data_exclude_forks = Some ''true'',
      data_exclude_archived = Some ''true'', data_sort = Some ''pushed'',
      data_topics_deep_limit = Some ''24''\<rparr>"

definition spent_world :: world where
  "spent_world = cold_world\<lparr>budget := 0, topic_calls := 32\<rparr>"
section \<open>Cache and time to live\<close>

lemma cache_entry_ts [simp]: "get (cache_entry t d) ''ts'' = Num t"
  by (simp add: cache_entry_def)

lemma cache_entry_truthy [simp]: "truthy (cache_entry t d)"
  by (simp add: cache_entry_def)

lemma getCache_entry: "storage w key = Some (cache_entry t d) \<Longrightarrow> getCache w key = cache_entry t d"
  by (simp add: getCache_def)


lemma hit_fresh: "cache_hit w key t d ttl \<Longrightarrow> is_fresh w (getCache w key) ttl"
  by (simp add: cache_hit_def is_fresh_def getCache_entry)


lemma hit_data: "cache_hit w key t d ttl \<Longrightarrow> get (getCache w key) ''data'' = get (cache_entry t d) ''data''"
  by (simp add: cache_hit_def getCache_entry)















lemma topic_calls_storage [simp]: "storage (w\<lparr>topic_calls := n\<rparr>) = storage w"
  by simp

lemma getCache_topic_calls [simp]: "getCache (w\<lparr>topic_calls := n\<rparr>) key = getCache w key"
  by (simp add: getCache_def)

lemma is_fresh_topic_calls [simp]: "is_fresh (w\<lparr>topic_calls := n\<rparr>) c ttl = is_fresh w c ttl"
  by (simp add: is_fresh_def cong: jsval.case_cong)

lemma fetchRepoTopics_hit:
  "cache_hit w (topics_key e owner repo) t d TOPIC_CACHE_TTL \<Longrightarrow>
   served_from_cache (fetchRepoTopics e w owner repo) w (get (cache_entry t d) ''data'')"
  by (simp add: fetchRepoTopics_def Let_def hit_fresh hit_data served_from_cache_def)



section \<open>Topic budget\<close>

lemma fetchQueuedJSON_budget [simp]:
  "budget (snd (fetchQueuedJSON e w url)) = budget w"
  "topic_calls (snd (fetchQueuedJSON e w url)) = topic_calls w"
  by (simp_all add: fetchQueuedJSON_def Let_def)

lemma setCache_budget [simp]:
  "budget (setCache e w key p) = budget w"
  "topic_calls (setCache e w key p) = topic_calls w"
  by (simp_all add: setCache_def Let_def)

lemma fetchRepoTopics_budget:
  "budget (snd (fetchRepoTopics e w owner repo)) = budget w"
proof -
  let ?w = "w\<lparr>topic_calls := Suc (topic_calls w)\<rparr>"
  obtain r w' where q: "fetchQueuedJSON e ?w (topics_url e owner repo) = (r, w')"
    by (cases "fetchQueuedJSON e ?w (topics_url e owner repo)")
  have "budget w' = budget w"
    using fetchQueuedJSON_budget(1) [of e ?w "topics_url e owner repo"] q by simp
  then show ?thesis
    using q by (cases r) (auto simp: fetchRepoTopics_def Let_def read_prop_def)
qed

lemma fetchRepoTopics_calls:
  "topic_calls (snd (fetchRepoTopics e w owner repo)) = Suc (topic_calls w)"
proof -
  let ?w = "w\<lparr>topic_calls := Suc (topic_calls w)\<rparr>"
  obtain r w' where q: "fetchQueuedJSON e ?w (topics_url e owner repo) = (r, w')"
    by (cases "fetchQueuedJSON e ?w (topics_url e owner repo)")
  have "topic_calls w' = Suc (topic_calls w)"
    using fetchQueuedJSON_budget(2) [of e ?w "topics_url e owner repo"] q by simp
  then show ?thesis
    using q by (cases r) (auto simp: fetchRepoTopics_def Let_def read_prop_def)
qed

lemma fetchOrgRepos_budget:
  "budget (snd (fetchOrgRepos e w org)) = budget w"
  "topic_calls (snd (fetchOrgRepos e w org)) = topic_calls w"
proof -
  let ?u = "org_url e org"
  obtain r w' where q: "fetchQueuedJSON e w ?u = (r, w')"
    by (cases "fetchQueuedJSON e w ?u")
  have s: "budget w' = budget w" "topic_calls w' = topic_calls w"
    using fetchQueuedJSON_budget [of e w ?u] q by simp_all
  show "budget (snd (fetchOrgRepos e w org)) = budget w"
    using q s by (cases r) (auto simp: fetchOrgRepos_def Let_def)
  show "topic_calls (snd (fetchOrgRepos e w org)) = topic_calls w"
    using q s by (cases r) (auto simp: fetchOrgRepos_def Let_def)
qed

text \<open>One turn of the loop of \<open>ensureTopicsFor\<close>.\<close>

lemma topics_loop_stop:
  "budget w \<le> 0 \<Longrightarrow> topics_loop e org need repos w = (repos, w)"
  by (cases need) simp_all

lemma topics_loop_sum:
  "int (topic_calls (snd (topics_loop e org need repos w))) + budget (snd (topics_loop e org need repos w))
     = int (topic_calls w) + budget w"
proof (induction need arbitrary: repos w)
  case Nil
  show ?case by simp
next
  case (Cons i rest)
  show ?case
  proof (cases "budget w \<le> 0")
    case True
    then show ?thesis by simp
  next
    case False
    obtain res w1 where f: "fetchRepoTopics e w org (get (repos ! i) ''name'') = (res, w1)"
      by (cases "fetchRepoTopics e w org (get (repos ! i) ''name'')")
    have b: "budget w1 = budget w" and c: "topic_calls w1 = Suc (topic_calls w)"
      using fetchRepoTopics_budget [of e w org "get (repos ! i) ''name''"]
        fetchRepoTopics_calls [of e w org "get (repos ! i) ''name''"] f by simp_all
    show ?thesis
      using False f b c Cons.IH by simp
  qed
qed

lemma topics_loop_nonneg:
  "0 \<le> budget w \<Longrightarrow> 0 \<le> budget (snd (topics_loop e org need repos w))"
proof (induction need arbitrary: repos w)
  case Nil
  then show ?case by simp
next
  case (Cons i rest)
  show ?case
  proof (cases "budget w \<le> 0")
    case True
    with Cons.prems show ?thesis by simp
  next
    case False
    obtain res w1 where f: "fetchRepoTopics e w org (get (repos ! i) ''name'') = (res, w1)"
      by (cases "fetchRepoTopics e w org (get (repos ! i) ''name'')")
    have b: "budget w1 = budget w"
      using fetchRepoTopics_budget [of e w org "get (repos ! i) ''name''"] f by simp
    show ?thesis
      using False f b Cons.IH by simp
  qed
qed

lemma topics_loop_exact:
  "int (length need) \<le> budget w \<Longrightarrow>
   budget (snd (topics_loop e org need repos w)) = budget w - int (length need)"
proof (induction need arbitrary: repos w)
  case Nil
  then show ?case by simp
next
  case (Cons i rest)
  obtain res w1 where f: "fetchRepoTopics e w org (get (repos ! i) ''name'') = (res, w1)"
    by (cases "fetchRepoTopics e w org (get (repos ! i) ''name'')")
  have b: "budget w1 = budget w"
    using fetchRepoTopics_budget [of e w org "get (repos ! i) ''name''"] f by simp
  have pos: "\<not> budget w \<le> 0" using Cons.prems by simp
  have "int (length rest) \<le> budget (w1\<lparr>budget := budget w1 - 1\<rparr>)"
    using Cons.prems b by simp
  from Cons.IH [OF this] show ?case
    using pos f b by simp
qed

lemma need_within_budget: "0 \<le> budget w \<Longrightarrow> int (length (candidates repos m (budget w))) \<le> budget w"
  by (cases m) (auto simp: candidates_def slice_end_def)

lemma need_empty: "budget w \<le> 0 \<Longrightarrow> candidates repos m (budget w) = []"
  by (cases m) (auto simp: candidates_def slice_end_def)

lemma ensureTopicsFor_snd:
  "snd (ensureTopicsFor e w org repos m) =
     (if \<exists>r \<in> set repos. nullish r then w
      else snd (topics_loop e org (candidates repos m (budget w)) repos w))"
  by (simp add: ensureTopicsFor_def candidates_def Let_def split: prod.splits)

lemma ensureTopicsFor_sum:
  "int (topic_calls (snd (ensureTopicsFor e w org repos m))) + budget (snd (ensureTopicsFor e w org repos m))
     = int (topic_calls w) + budget w"
  by (simp add: ensureTopicsFor_snd topics_loop_sum)

lemma ensureTopicsFor_nonneg:
  "0 \<le> budget w \<Longrightarrow> 0 \<le> budget (snd (ensureTopicsFor e w org repos m))"
  by (simp add: ensureTopicsFor_snd topics_loop_nonneg)

lemma ensureTopicsFor_spent:
  assumes "fst (ensureTopicsFor e w org repos m) = Inr repos'"
  shows "budget (snd (ensureTopicsFor e w org repos m))
           = budget w - int (length (candidates repos m (budget w)))"
proof (cases "0 \<le> budget w")
  case True
  have "\<not> (\<exists>r \<in> set repos. nullish r)"
    using assms by (auto simp: ensureTopicsFor_def split: if_splits)
  then show ?thesis
    using topics_loop_exact [OF need_within_budget [OF True]]
    by (simp add: ensureTopicsFor_snd)
next
  case False
  then have "candidates repos m (budget w) = []"
    by (simp add: need_empty)
  then show ?thesis
    by (simp add: ensureTopicsFor_snd)
qed

lemma ensureTopicsFor_calls:
  assumes "fst (ensureTopicsFor e w org repos m) = Inr repos'"
  shows "topic_calls (snd (ensureTopicsFor e w org repos m))
           = topic_calls w + length (candidates repos m (budget w))"
  using ensureTopicsFor_spent [OF assms] ensureTopicsFor_sum [of e w org repos m]
  by simp

lemma turn_costs_one:
  "0 < budget w \<Longrightarrow> budget (snd (topics_loop e org [i] repos w)) = budget w - 1"
  using topics_loop_exact [of "[i]" w e org repos] by simp

lemma cached_turn_sends_nothing:
  assumes "cache_hit w (topics_key e org (get (repos ! i) ''name'')) t d TOPIC_CACHE_TTL"
    and "0 < budget w"
  shows "sent (snd (topics_loop e org [i] repos w)) = sent w"
proof -
  have "sent (snd (fetchRepoTopics e w org (get (repos ! i) ''name''))) = sent w"
    using fetchRepoTopics_hit [OF assms(1)] by (simp add: served_from_cache_def)
  then show ?thesis
    using assms(2) by (auto split: prod.splits)
qed

lemma failed_turn_keeps_repos:
  assumes "fst (fetchRepoTopics e w org (get (repos ! i) ''name'')) = Inl x"
    and "0 < budget w"
  shows "fst (topics_loop e org [i] repos w) = repos"
  using assms by (auto split: prod.splits)

lemma ensureTopicsFor_exhausted:
  "budget w \<le> 0 \<Longrightarrow> snd (ensureTopicsFor e w org repos m) = w"
  by (simp add: ensureTopicsFor_snd need_empty)

lemma fill_card_ok: "budget_ok w \<Longrightarrow> budget_ok (fill_card e c w)"
proof -
  assume ok: "budget_ok w"
  obtain r w1 where f: "fetchOrgRepos e w (data_org c) = (r, w1)"
    by (cases "fetchOrgRepos e w (data_org c)")
  have ok1: "budget_ok w1"
    using ok fetchOrgRepos_budget [of e w "data_org c"] f by (simp add: budget_ok_def)
  have ok2: "budget_ok (snd (ensureTopicsFor e w1 org repos m))" for org repos m
    using ok1 ensureTopicsFor_sum [of e w1 org repos m] ensureTopicsFor_nonneg [of w1 e org repos m]
    by (simp add: budget_ok_def)
  show ?thesis
    using ok ok1 ok2 f
    by (simp add: fill_card_def split: sum.splits)
qed

lemma fillOrgCards_ok: "budget_ok w \<Longrightarrow> budget_ok (fillOrgCards e cs w)"
  by (induction cs arbitrary: w) (simp_all add: fill_card_ok)

text \<open>
  Claim C10. Every repository that \<open>ensureTopicsFor\<close> processes takes exactly one unit
  from the budget: a call that returns has lowered the counter by the number of
  candidates, one call of \<open>fetchRepoTopics\<close> each. A single turn of the loop lowers the
  counter by one when \<open>fetchRepoTopics\<close> answers from a fresh cache entry and sends no
  request, and when the fetch raises and the repository keeps its topics.
\<close>

theorem every_turn_costs_one:
  "(fst (ensureTopicsFor e w org repos m) = Inr repos' \<longrightarrow>
      budget (snd (ensureTopicsFor e w org repos m))
        = budget w - int (length (candidates repos m (budget w))) \<and>
      topic_calls (snd (ensureTopicsFor e w org repos m))
        = topic_calls w + length (candidates repos m (budget w))) \<and>
   (0 < budget w \<longrightarrow> budget (snd (topics_loop e org [i] repos w)) = budget w - 1) \<and>
   (0 < budget w \<and> cache_hit w (topics_key e org (get (repos ! i) ''name'')) t d TOPIC_CACHE_TTL \<longrightarrow>
      sent (snd (topics_loop e org [i] repos w)) = sent w \<and>
      budget (snd (topics_loop e org [i] repos w)) = budget w - 1) \<and>
   (0 < budget w \<and> fst (fetchRepoTopics e w org (get (repos ! i) ''name'')) = Inl x \<longrightarrow>
      fst (topics_loop e org [i] repos w) = repos \<and>
      budget (snd (topics_loop e org [i] repos w)) = budget w - 1)"
  using ensureTopicsFor_spent [of e w org repos m repos']
    ensureTopicsFor_calls [of e w org repos m repos']
    turn_costs_one [of w e org i repos]
    cached_turn_sends_nothing [of w e org repos i t d]
    failed_turn_keeps_repos [of e w org repos i x]
  by blast

text \<open>One repository without topics: served from a warm cache, and failing offline.\<close>

theorem every_turn_costs_one_witness:
  "(fst (ensureTopicsFor sample_env warm_world ''acme'' one_repo (Some 24)) = Inr one_repo \<and>
    budget (snd (ensureTopicsFor sample_env warm_world ''acme'' one_repo (Some 24))) = 31 \<and>
    topic_calls (snd (ensureTopicsFor sample_env warm_world ''acme'' one_repo (Some 24))) = 1) \<and>
   (0 < budget warm_world \<and>
    cache_hit warm_world (topics_key sample_env ''acme'' (get (one_repo ! 0) ''name'')) 1000 (Arr [])
      TOPIC_CACHE_TTL \<and>
    sent (snd (topics_loop sample_env ''acme'' [0] one_repo warm_world)) = [] \<and>
    budget (snd (topics_loop sample_env ''acme'' [0] one_repo warm_world)) = 31) \<and>
   (0 < budget cold_world \<and>
    fst (fetchRepoTopics offline_env cold_world ''acme'' (get (one_repo ! 0) ''name''))
      = Inl NetworkFailure \<and>
    fst (topics_loop offline_env ''acme'' [0] one_repo cold_world) = one_repo \<and>
    budget (snd (topics_loop offline_env ''acme'' [0] one_repo cold_world)) = 31)"
proof -
  have run: "fst (ensureTopicsFor sample_env warm_world ''acme'' one_repo (Some 24)) = Inr one_repo"
    by (simp add: ensureTopicsFor_def candidates_def slice_end_def need_indices_def
        needs_topics_def one_repo_def warm_world_def sample_env_def fetchRepoTopics_def
        getCache_def is_fresh_def cache_entry_def TOPIC_CACHE_TTL_def topics_key_def
        to_string_def)
  have need: "candidates one_repo (Some 24) (budget warm_world) = [0]"
    by (simp add: candidates_def slice_end_def need_indices_def needs_topics_def one_repo_def
        warm_world_def)
  have b: "budget warm_world = 32" "budget cold_world = 32" "topic_calls warm_world = 0"
    "sent warm_world = []"
    by (simp_all add: warm_world_def cold_world_def)
  have hit: "cache_hit warm_world (topics_key sample_env ''acme'' (get (one_repo ! 0) ''name''))
      1000 (Arr []) TOPIC_CACHE_TTL"
    by (simp add: cache_hit_def warm_world_def TOPIC_CACHE_TTL_def)
  have fail: "fst (fetchRepoTopics offline_env cold_world ''acme'' (get (one_repo ! 0) ''name''))
      = Inl NetworkFailure"
    by (simp add: fetchRepoTopics_def getCache_def is_fresh_def cold_world_def offline_env_def
        sample_env_def fetchQueuedJSON_def Let_def one_repo_def)
  note warm = every_turn_costs_one [where e = sample_env and w = warm_world and org = "''acme''"
      and repos = one_repo and m = "Some 24" and repos' = one_repo and i = 0 and t = 1000
      and d = "Arr []"]
  note cold = every_turn_costs_one [where e = offline_env and w = cold_world and org = "''acme''"
      and repos = one_repo and i = 0 and x = NetworkFailure]
  show ?thesis
    using warm cold run need hit fail by (simp add: b)
qed

lemma topics_loop_ok: "budget_ok w \<Longrightarrow> budget_ok (snd (topics_loop e org need repos w))"
  using topics_loop_sum [of e org need repos w] topics_loop_nonneg [of w e org need repos]
  by (simp add: budget_ok_def)

lemma ensureTopicsFor_ok: "budget_ok w \<Longrightarrow> budget_ok (snd (ensureTopicsFor e w org repos m))"
  using ensureTopicsFor_sum [of e w org repos m] ensureTopicsFor_nonneg [of w e org repos m]
  by (simp add: budget_ok_def)

lemma page_start_ok: "page_start w \<Longrightarrow> budget_ok w"
  by (simp add: page_start_def budget_ok_def BUDGET_CEILING_def)

lemma budget_ok_bound: "budget_ok w \<Longrightarrow> 0 \<le> budget w \<and> int (topic_calls w) \<le> BUDGET_CEILING"
  by (simp add: budget_ok_def)

text \<open>
  Claim C1. From the start of a page (counter at the ceiling of 32, no topic fetch
  made) the counter never becomes negative and the number of calls of
  \<open>fetchRepoTopics\<close> never exceeds the ceiling, after any sequence of organisation
  cards, and the bound is kept by every turn of the loop, every call of
  \<open>ensureTopicsFor\<close> and every card. Once the counter is at zero, \<open>ensureTopicsFor\<close>
  leaves the whole state as it is: no call, no request, no decrement.
\<close>

theorem topic_budget_never_exceeded:
  "(page_start w \<longrightarrow>
      0 \<le> budget (fillOrgCards e cards w) \<and>
      int (topic_calls (fillOrgCards e cards w)) \<le> BUDGET_CEILING \<and>
      int (topic_calls (fillOrgCards e cards w)) + budget (fillOrgCards e cards w) = BUDGET_CEILING) \<and>
   (budget_ok w \<longrightarrow>
      budget_ok (snd (topics_loop e org need repos w)) \<and>
      budget_ok (snd (ensureTopicsFor e w org repos m)) \<and>
      budget_ok (fill_card e c w)) \<and>
   (budget w \<le> 0 \<longrightarrow>
      topics_loop e org need repos w = (repos, w) \<and>
      snd (ensureTopicsFor e w org repos m) = w)"
proof (intro conjI impI)
  assume "page_start w"
  then have ok: "budget_ok (fillOrgCards e cards w)"
    by (simp add: page_start_ok fillOrgCards_ok)
  then show "0 \<le> budget (fillOrgCards e cards w)"
    and "int (topic_calls (fillOrgCards e cards w)) \<le> BUDGET_CEILING"
    and "int (topic_calls (fillOrgCards e cards w)) + budget (fillOrgCards e cards w) = BUDGET_CEILING"
    by (simp_all add: budget_ok_def)
next
  assume "budget_ok w"
  then show "budget_ok (snd (topics_loop e org need repos w))"
    and "budget_ok (snd (ensureTopicsFor e w org repos m))"
    and "budget_ok (fill_card e c w)"
    by (simp_all add: topics_loop_ok ensureTopicsFor_ok fill_card_ok)
next
  assume "budget w \<le> 0"
  then show "topics_loop e org need repos w = (repos, w)"
    and "snd (ensureTopicsFor e w org repos m) = w"
    by (simp_all add: topics_loop_stop ensureTopicsFor_exhausted)
qed

text \<open>One card on a fresh page, and a call on a page whose budget is spent.\<close>

theorem topic_budget_never_exceeded_witness:
  "(page_start cold_world \<and>
      0 \<le> budget (fillOrgCards sample_env [acme_card] cold_world) \<and>
      int (topic_calls (fillOrgCards sample_env [acme_card] cold_world)) \<le> BUDGET_CEILING) \<and>
   (budget_ok cold_world \<and>
      budget_ok (snd (ensureTopicsFor sample_env cold_world ''acme'' one_repo (Some 24))) \<and>
      budget_ok (fill_card sample_env acme_card cold_world)) \<and>
   (budget spent_world \<le> 0 \<and> budget_ok spent_world \<and>
      snd (ensureTopicsFor sample_env spent_world ''acme'' one_repo (Some 24)) = spent_world)"
proof -
  have s: "page_start cold_world" "budget_ok cold_world" "budget spent_world \<le> 0"
    "budget_ok spent_world"
    by (simp_all add: page_start_def budget_ok_def cold_world_def spent_world_def
        BUDGET_CEILING_def)
  note first = topic_budget_never_exceeded [where w = cold_world and e = sample_env
      and cards = "[acme_card]" and org = "''acme''" and repos = one_repo and m = "Some 24"
      and c = acme_card]
  note last = topic_budget_never_exceeded [where w = spent_world and e = sample_env
      and org = "''acme''" and repos = one_repo and m = "Some 24"]
  show ?thesis
    using first last s by blast
qed

end
